theory Spec2Isabelle
  imports Complex_Main "HOL-Library.Word"
begin

section \<open>Python values and exceptions\<close>

text \<open>
  Exceptions are values. \<open>AttributeError\<close> carries the name of the missing attribute;
  \<open>ExternalError\<close> stands for whatever the third-party libraries (ultralytics, OpenCV)
  raise by themselves. \<open>NotLoadedError\<close> is the exception the specification names for
  a \<open>predict\<close> on a plugin that is not loaded; no statement of the source raises it.
\<close>

datatype error =
    AttributeError string
  | KeyError
  | IndexError
  | TypeError
  | ValueError
  | ReError
  | ExternalError string
  | NotLoadedError

text \<open>The values a parameter dictionary (\<open>Dict[str, Any]\<close>) holds.\<close>

datatype pval = PNone | PBool bool | PInt int | PFloat real | PStr string

type_synonym pdict = "string \<rightharpoonup> pval"

text \<open>\<open>d.get(k, default)\<close>\<close>

definition dict_get :: "('k \<rightharpoonup> 'v) \<Rightarrow> 'k \<Rightarrow> 'v \<Rightarrow> 'v" where
  "dict_get d k dflt = (case d k of None \<Rightarrow> dflt | Some v \<Rightarrow> v)"

text \<open>The truth value Python's \<open>if v:\<close> gives a value.\<close>

fun truthy :: "pval \<Rightarrow> bool" where
  "truthy PNone = False"
| "truthy (PBool b) = b"
| "truthy (PInt i) = (i \<noteq> 0)"
| "truthy (PFloat x) = (x \<noteq> 0)"
| "truthy (PStr s) = (s \<noteq> [])"

text \<open>
  \<open>v > 0\<close> for a parameter value: numbers (and booleans, which are integers in Python)
  compare; \<open>None\<close> and strings raise \<open>TypeError\<close>.
\<close>

fun gt_zero :: "pval \<Rightarrow> error + bool" where
  "gt_zero PNone = Inl TypeError"
| "gt_zero (PBool b) = Inr b"
| "gt_zero (PInt i) = Inr (i > 0)"
| "gt_zero (PFloat x) = Inr (x > 0)"
| "gt_zero (PStr s) = Inl TypeError"

text \<open>\<open>v * x\<close> for a parameter value \<open>v\<close> and a float \<open>x\<close>, where \<open>v > 0\<close> has succeeded.\<close>

fun num_of :: "pval \<Rightarrow> real" where
  "num_of (PBool b) = (if b then 1 else 0)"
| "num_of (PInt i) = real_of_int i"
| "num_of (PFloat x) = x"
| "num_of _ = 0"


section \<open>Prompt parsing (\<open>parse_prompts\<close>)\<close>

text \<open>
  A \<open>string\<close> stands for a Python \<open>str\<close> whose code points are below 256; a
  \<open>char\<close> is one code point. \<open>isspace\<close> is \<open>str.isspace\<close> on that range: the
  characters \<open>str.strip()\<close> removes.
\<close>

definition isspace :: "char \<Rightarrow> bool" where
  "isspace c = ((of_char c :: nat) \<in> {9, 10, 11, 12, 13, 28, 29, 30, 31, 32, 133, 160})"

definition strip :: "string \<Rightarrow> string" where
  "strip s = rev (dropWhile isspace (rev (dropWhile isspace s)))"

text \<open>
  The pattern is the character class \<open>[...]\<close> of the escaped separators. \<open>re.escape\<close>
  makes every character of every separator stand for itself inside the brackets, so
  the class is the set of those characters; with no character at all the pattern is
  \<open>[]\<close>, which \<open>re\<close> refuses to compile.
\<close>

definition char_class :: "string list \<Rightarrow> error + char set" where
  "char_class separators =
     (if concat separators = [] then Inl ReError else Inr (set (concat separators)))"

text \<open>
  \<open>re.split\<close> for a pattern that matches exactly one character of the class: the text
  is cut at every such character, and the pieces between them (empty ones too) are
  returned in order.
\<close>

fun re_split :: "char set \<Rightarrow> string \<Rightarrow> string list" where
  "re_split cls [] = [[]]"
| "re_split cls (c # cs) =
     (if c \<in> cls then [] # re_split cls cs
      else (case re_split cls cs of
              [] \<Rightarrow> [[c]]
            | p # ps \<Rightarrow> (c # p) # ps))"

text \<open>
  \<open>list(dict.fromkeys(xs))\<close>: the keys of an insertion-ordered dictionary filled from
  left to right; a key that is already present keeps its place.
\<close>

definition fromkeys :: "'a list \<Rightarrow> 'a list" where
  "fromkeys xs = foldl (\<lambda>keys k. if k \<in> set keys then keys else keys @ [k]) [] xs"

definition default_separators :: "string list" where
  "default_separators = ['','', ''.'']"

definition parse_prompts :: "string \<Rightarrow> string list option \<Rightarrow> bool \<Rightarrow> error + string list" where
  "parse_prompts text separators_arg deduplicate =
     (let separators = (case separators_arg of None \<Rightarrow> default_separators | Some s \<Rightarrow> s)
      in if strip text = [] then Inr []
         else (case char_class separators of
                 Inl e \<Rightarrow> Inl e
               | Inr cls \<Rightarrow>
                   (let prompts = map strip (filter (\<lambda>p. strip p \<noteq> []) (re_split cls text))
                    in Inr (if deduplicate then fromkeys prompts else prompts))))"

subsection \<open>The parser as the specification words it\<close>

text \<open>
  Splitting on any separator character: the piece up to the first separator, then the
  split of what follows it.
\<close>

function spec_split :: "char set \<Rightarrow> string \<Rightarrow> string list" where
  "spec_split seps s =
     (case dropWhile (\<lambda>c. c \<notin> seps) s of
        [] \<Rightarrow> [s]
      | _ # rest \<Rightarrow> takeWhile (\<lambda>c. c \<notin> seps) s # spec_split seps rest)"
  by pat_completeness auto
termination
proof (relation "measure (\<lambda>(seps, s). length s)")
  show "wf (measure (\<lambda>(seps, s). length s))" by simp
next
  fix seps :: "char set" and s :: string and x21 :: char and x22 :: string
  assume h: "dropWhile (\<lambda>c. c \<notin> seps) s = x21 # x22"
  have "length (dropWhile (\<lambda>c. c \<notin> seps) s) \<le> length s"
    by (rule length_dropWhile_le)
  with h show "((seps, x22), (seps, s)) \<in> measure (\<lambda>(seps, s). length s)"
    by simp
qed

text \<open>Trimming whitespace: no whitespace character is left at either end.\<close>

definition spec_trim :: "string \<Rightarrow> string" where
  "spec_trim s = dropWhile isspace (rev (dropWhile isspace (rev s)))"

text \<open>Removing later duplicates: each element stays where it occurs first.\<close>

fun spec_dedup :: "'a list \<Rightarrow> 'a list" where
  "spec_dedup [] = []"
| "spec_dedup (x # xs) = x # spec_dedup (removeAll x xs)"

definition spec_parse :: "string \<Rightarrow> char set \<Rightarrow> bool \<Rightarrow> string list" where
  "spec_parse text seps deduplicate =
     (let pieces = filter (\<lambda>p. p \<noteq> []) (map spec_trim (spec_split seps text))
      in if deduplicate then spec_dedup pieces else pieces)"

declare spec_split.simps [simp del]


section \<open>Arrays, images and the OpenCV functions\<close>

text \<open>A two-dimensional numpy array: its \<open>shape\<close> and its rows.\<close>

record 'a array2 =
  rows :: nat
  cols :: nat
  cells :: "'a list list"

definition map_array2 :: "('a \<Rightarrow> 'b) \<Rightarrow> 'a array2 \<Rightarrow> 'b array2" where
  "map_array2 f a = \<lparr>rows = rows a, cols = cols a, cells = map (map f) (cells a)\<rparr>"

text \<open>A mask is a float array of per-pixel scores.\<close>

type_synonym mask = "real array2"

text \<open>
  An image: its \<open>shape\<close> (any number of dimensions) and its pixels by row, column and
  channel.
\<close>

record image =
  img_shape :: "nat list"
  img_pixel :: "nat \<Rightarrow> nat \<Rightarrow> nat \<Rightarrow> 8 word"

text \<open>\<open>int(x)\<close> and the integer part of a float-to-integer cast: towards zero.\<close>

definition py_int :: "real \<Rightarrow> int" where
  "py_int x = (if 0 \<le> x then \<lfloor>x\<rfloor> else \<lceil>x\<rceil>)"

text \<open>
  \<open>x.astype(np.uint8)\<close> on one float: the fraction is dropped and the integer is kept
  modulo 256 (what the cast gives outside 0..255 depends on the platform; a score in
  [0, 1] times 255 stays inside). Scores are exact reals here; the rounding of the
  float32 product is not modelled.
\<close>

definition astype_uint8 :: "real \<Rightarrow> 8 word" where
  "astype_uint8 x = word_of_int (py_int x)"

text \<open>\<open>mask_uint8 = (mask * 255).astype(np.uint8)\<close>\<close>

definition mask_uint8 :: "mask \<Rightarrow> 8 word array2" where
  "mask_uint8 msk = map_array2 (\<lambda>v. astype_uint8 (v * 255)) msk"

text \<open>
  \<open>cv2.findContours\<close> reads every non-zero pixel of its 8-bit input as foreground and
  every zero pixel as background.
\<close>

definition foreground :: "real \<Rightarrow> bool" where
  "foreground v = (astype_uint8 (v * 255) \<noteq> 0)"

type_synonym contour = "(int \<times> int) list"

text \<open>
  The OpenCV functions the module calls are not part of the repository; they are
  parameters of the model. \<open>findContours\<close> is taken with the mode \<open>RETR_EXTERNAL\<close> and
  the method \<open>CHAIN_APPROX_SIMPLE\<close>, \<open>resize\<close> with \<open>INTER_LINEAR\<close> and the target
  size \<open>(width, height)\<close>; \<open>resize\<close> may raise.
\<close>

record cv2 =
  findContours :: "8 word array2 \<Rightarrow> contour list"
  contourArea :: "contour \<Rightarrow> real"
  arcLength :: "contour \<Rightarrow> bool \<Rightarrow> real"
  approxPolyDP :: "contour \<Rightarrow> real \<Rightarrow> bool \<Rightarrow> contour"
  resize :: "mask \<Rightarrow> nat \<times> nat \<Rightarrow> error + mask"

text \<open>\<open>max(xs, key=f)\<close> on a non-empty list: the first element whose key is largest.\<close>

fun max_by :: "('a \<Rightarrow> real) \<Rightarrow> 'a \<Rightarrow> 'a list \<Rightarrow> 'a" where
  "max_by key best [] = best"
| "max_by key best (x # xs) = max_by key (if key best < key x then x else best) xs"


section \<open>The polygon extractor (\<open>mask_to_polygon\<close>)\<close>

type_synonym point = "real \<times> real"

definition mask_to_polygon :: "cv2 \<Rightarrow> mask \<Rightarrow> pval \<Rightarrow> error + point list" where
  "mask_to_polygon cv msk epsilon_factor =
     (case findContours cv (mask_uint8 msk) of
        [] \<Rightarrow> Inr []
      | c # cs \<Rightarrow>
          (let contour = max_by (contourArea cv) c cs
           in case gt_zero epsilon_factor of
                Inl e \<Rightarrow> Inl e
              | Inr positive \<Rightarrow>
                  (let contour' =
                         (if positive
                          then approxPolyDP cv contour
                                 (num_of epsilon_factor * arcLength cv contour True) True
                          else contour)
                   in Inr (map (\<lambda>(x, y). (real_of_int x, real_of_int y)) contour'))))"


section \<open>The wrapped model and the plugin\<close>

text \<open>One detection box: class id, confidence and the corners \<open>x1, y1, x2, y2\<close>.\<close>

record box =
  box_cls :: real
  box_conf :: real
  box_xyxy :: "real \<times> real \<times> real \<times> real"

text \<open>One \<open>Results\<close> object of the wrapped model.\<close>

record yresult =
  boxes :: "box list option"
  masks :: "mask list option"
  names :: "int \<rightharpoonup> string"

text \<open>
  The wrapped model object: calling it with an image and keyword arguments, and moving
  it to a device. Both may raise. What the calls do to the object's own state is not
  visible to the module and is not modelled.
\<close>

datatype yolo = Yolo
  (yolo_call: "image \<Rightarrow> pdict \<Rightarrow> error + yresult list")
  (yolo_to: "pval \<Rightarrow> error option")

text \<open>
  Modelled from the spec: the \<open>Shape\<close> schema (\<open>app.schemas.shape\<close>) is not among the
  source files. The four fields the module sets are kept; the other fields of the
  schema take their defaults in every shape built here.
\<close>

record shape =
  label :: string
  shape_type :: string
  points :: "point list"
  score :: real

record prediction =
  shapes :: "shape list"
  description :: string

text \<open>
  The configuration dictionary, by the keys \<open>__init__\<close> reads; a key may be missing.
\<close>

record config =
  cfg_model_id :: "string option"
  cfg_display_name :: "string option"
  cfg_params :: "pdict option"

text \<open>The plugin object. \<open>model\<close> is \<open>None\<close> while the attribute \<open>self.model\<close> does not exist.\<close>

record plugin =
  model_id :: string
  display_name :: string
  params :: pdict
  model :: "yolo option"

definition init :: "config \<Rightarrow> error + plugin" where
  "init cfg =
     (case cfg_model_id cfg of
        None \<Rightarrow> Inl KeyError
      | Some mid \<Rightarrow>
          (case cfg_display_name cfg of
             None \<Rightarrow> Inl KeyError
           | Some dn \<Rightarrow>
               Inr \<lparr>model_id = mid, display_name = dn,
                    params = (case cfg_params cfg of None \<Rightarrow> Map.empty | Some p \<Rightarrow> p),
                    model = None\<rparr>))"

definition dummy_img :: image where
  "dummy_img = \<lparr>img_shape = [640, 640, 3], img_pixel = (\<lambda>r c ch. 0)\<rparr>"

text \<open>
  \<open>load\<close>: the plugin after the call, and whether the call raised. \<open>YOLO\<close> is the
  constructor of the wrapped model (with the import that precedes it). The attribute is
  assigned as soon as the constructor returns, before the move to the device and the
  warm-up call.
\<close>

definition load :: "(pval \<Rightarrow> error + yolo) \<Rightarrow> plugin \<Rightarrow> (error + unit) \<times> plugin" where
  "load YOLO self =
     (let model_path = dict_get (params self) ''model_path'' (PStr ''yolo11n-seg.pt'');
          device = dict_get (params self) ''device'' (PStr ''cpu'')
      in case YOLO model_path of
           Inl e \<Rightarrow> (Inl e, self)
         | Inr m \<Rightarrow>
             (let self' = self\<lparr>model := Some m\<rparr>
              in case yolo_to m device of
                   Some e \<Rightarrow> (Inl e, self')
                 | None \<Rightarrow>
                     (case yolo_call m dummy_img [''verbose'' \<mapsto> PBool False] of
                        Inl e \<Rightarrow> (Inl e, self')
                      | Inr _ \<Rightarrow> (Inr (), self'))))"

definition unload :: "plugin \<Rightarrow> plugin" where
  "unload self = (if model self \<noteq> None then self\<lparr>model := None\<rparr> else self)"


section \<open>The shape assembler and \<open>predict\<close>\<close>

text \<open>\<open>orig_h, orig_w = image.shape[:2]\<close>: unpacking fails on fewer than two dimensions.\<close>

definition shape_hw :: "nat list \<Rightarrow> error + nat \<times> nat" where
  "shape_hw shp = (case take 2 shp of [h, w] \<Rightarrow> Inr (h, w) | _ \<Rightarrow> Inl ValueError)"

text \<open>
  \<open>boxes[i]\<close> for an index that \<open>enumerate\<close> produced: \<open>None\<close> cannot be indexed, and
  an index past the end raises.
\<close>

definition getitem :: "'a list option \<Rightarrow> nat \<Rightarrow> error + 'a" where
  "getitem xs i =
     (case xs of
        None \<Rightarrow> Inl TypeError
      | Some l \<Rightarrow> if i < length l then Inr (l ! i) else Inl IndexError)"

text \<open>The rectangle shape of a box: its four corners, clockwise from \<open>(x1, y1)\<close>.\<close>

definition rectangle :: "string \<Rightarrow> real \<Rightarrow> real \<times> real \<times> real \<times> real \<Rightarrow> shape" where
  "rectangle lbl conf xyxy =
     (case xyxy of (x1, y1, x2, y2) \<Rightarrow>
        \<lparr>label = lbl, shape_type = ''rectangle'',
         points = [(x1, y1), (x2, y1), (x2, y2), (x1, y2)], score = conf\<rparr>)"

definition polygon :: "string \<Rightarrow> real \<Rightarrow> point list \<Rightarrow> shape" where
  "polygon lbl conf points_list =
     \<lparr>label = lbl, shape_type = ''polygon'', points = points_list, score = conf\<rparr>"

text \<open>
  The ring-closing step: \<open>if points_list and points_list[0] != points_list[-1]:
  points_list.append(points_list[0])\<close>.
\<close>

definition close_ring :: "'a list \<Rightarrow> 'a list" where
  "close_ring points_list =
     (if points_list \<noteq> [] \<and> hd points_list \<noteq> last points_list
      then points_list @ [hd points_list] else points_list)"

text \<open>The mask at the image's resolution: resized only when its shape differs.\<close>

definition resample :: "cv2 \<Rightarrow> mask \<Rightarrow> nat \<Rightarrow> nat \<Rightarrow> error + mask" where
  "resample cv msk orig_h orig_w =
     (if rows msk \<noteq> orig_h \<or> cols msk \<noteq> orig_w
      then resize cv msk (orig_w, orig_h) else Inr msk)"

text \<open>
  The body of the loop over the masks of one result, for the mask at index \<open>i\<close>: the
  shapes it appends, or the exception it raises.
\<close>

definition mask_instance ::
  "cv2 \<Rightarrow> yresult \<Rightarrow> nat \<Rightarrow> nat \<Rightarrow> pval \<Rightarrow> pval \<Rightarrow> nat \<Rightarrow> mask \<Rightarrow> error + shape list" where
  "mask_instance cv result orig_h orig_w show_boxes epsilon_factor i msk =
     (case getitem (boxes result) i of
        Inl e \<Rightarrow> Inl e
      | Inr b \<Rightarrow>
          (let cls = py_int (box_cls b); conf = box_conf b
           in case names result cls of
                None \<Rightarrow> Inl KeyError
              | Some lbl \<Rightarrow>
                  (case resample cv msk orig_h orig_w of
                     Inl e \<Rightarrow> Inl e
                   | Inr msk' \<Rightarrow>
                       (case mask_to_polygon cv msk' epsilon_factor of
                          Inl e \<Rightarrow> Inl e
                        | Inr pts \<Rightarrow>
                            if length pts < 3 then Inr []
                            else (let points_list = close_ring pts
                                  in Inr ((if truthy show_boxes
                                           then [rectangle lbl conf (box_xyxy b)] else [])
                                          @ [polygon lbl conf points_list]))))))"

text \<open>The body of the loop over the boxes of a result without masks.\<close>

definition box_instance :: "yresult \<Rightarrow> box \<Rightarrow> error + shape list" where
  "box_instance result b =
     (let conf = box_conf b; cls = py_int (box_cls b)
      in case names result cls of
           None \<Rightarrow> Inl KeyError
         | Some lbl \<Rightarrow> Inr [rectangle lbl conf (box_xyxy b)])"

text \<open>
  A \<open>for i, x in enumerate(xs)\<close> loop whose body appends to \<open>shapes\<close>: the first
  exception ends the loop and the call.
\<close>

fun for_enumerate ::
  "(nat \<Rightarrow> 'a \<Rightarrow> error + shape list) \<Rightarrow> nat \<Rightarrow> 'a list \<Rightarrow> shape list \<Rightarrow> error + shape list" where
  "for_enumerate body i [] acc = Inr acc"
| "for_enumerate body i (x # xs) acc =
     (case body i x of
        Inl e \<Rightarrow> Inl e
      | Inr new \<Rightarrow> for_enumerate body (Suc i) xs (acc @ new))"

text \<open>The body of the loop over the results: the shapes one result appends.\<close>

definition result_shapes ::
  "cv2 \<Rightarrow> nat \<Rightarrow> nat \<Rightarrow> pval \<Rightarrow> pval \<Rightarrow> yresult \<Rightarrow> error + shape list" where
  "result_shapes cv orig_h orig_w show_boxes epsilon_factor result =
     (case masks result of
        Some mask_data \<Rightarrow>
          for_enumerate (mask_instance cv result orig_h orig_w show_boxes epsilon_factor)
            0 mask_data []
      | None \<Rightarrow>
          (case boxes result of
             Some bs \<Rightarrow> for_enumerate (\<lambda>i. box_instance result) 0 bs []
           | None \<Rightarrow> Inr []))"

text \<open>
  The parameters of one call, as \<open>predict\<close> resolves them: the thresholds and
  \<open>epsilon_factor\<close> from the call's parameters, then the plugin's own, then a default;
  \<open>show_boxes\<close> from the plugin's own parameters, then a default.
\<close>

definition conf_threshold_of :: "plugin \<Rightarrow> pdict \<Rightarrow> pval" where
  "conf_threshold_of self call_params =
     dict_get call_params ''conf_threshold''
       (dict_get (params self) ''conf_threshold'' (PFloat 0.25))"

definition iou_threshold_of :: "plugin \<Rightarrow> pdict \<Rightarrow> pval" where
  "iou_threshold_of self call_params =
     dict_get call_params ''iou_threshold''
       (dict_get (params self) ''iou_threshold'' (PFloat 0.70))"

definition show_boxes_of :: "plugin \<Rightarrow> pval" where
  "show_boxes_of self = dict_get (params self) ''show_boxes'' (PBool False)"

definition epsilon_factor_of :: "plugin \<Rightarrow> pdict \<Rightarrow> pval" where
  "epsilon_factor_of self call_params =
     dict_get call_params ''epsilon_factor''
       (dict_get (params self) ''epsilon_factor'' (PFloat 0.001))"

text \<open>The keyword arguments of the call of the wrapped model.\<close>

definition model_kwargs :: "pval \<Rightarrow> pval \<Rightarrow> pdict" where
  "model_kwargs conf_threshold iou_threshold =
     [''conf'' \<mapsto> conf_threshold, ''iou'' \<mapsto> iou_threshold, ''verbose'' \<mapsto> PBool False]"

definition predict :: "cv2 \<Rightarrow> plugin \<Rightarrow> image \<Rightarrow> pdict \<Rightarrow> error + prediction" where
  "predict cv self img call_params =
     (let conf_threshold = conf_threshold_of self call_params;
          iou_threshold = iou_threshold_of self call_params
      in case shape_hw (img_shape img) of
           Inl e \<Rightarrow> Inl e
         | Inr (orig_h, orig_w) \<Rightarrow>
             (case model self of
                None \<Rightarrow> Inl (AttributeError ''model'')
              | Some m \<Rightarrow>
                  (case yolo_call m img (model_kwargs conf_threshold iou_threshold) of
                     Inl e \<Rightarrow> Inl e
                   | Inr results \<Rightarrow>
                       (let show_boxes = show_boxes_of self;
                            epsilon_factor = epsilon_factor_of self call_params
                        in case for_enumerate
                                  (\<lambda>i. result_shapes cv orig_h orig_w show_boxes epsilon_factor)
                                  0 results [] of
                             Inl e \<Rightarrow> Inl e
                           | Inr shps \<Rightarrow> Inr \<lparr>shapes = shps, description = []\<rparr>))))"


section \<open>A concrete setting\<close>

text \<open>
  Stand-ins for the external libraries, small enough to run: every image with a
  non-zero pixel has one square contour, simplification keeps the contour, and a mask
  without rows or columns cannot be resized. They instantiate the general theorems.
\<close>

definition example_square :: contour where
  "example_square = [(0, 0), (0, 1), (1, 1), (1, 0)]"

definition example_cv2 :: cv2 where
  "example_cv2 =
     \<lparr>findContours = (\<lambda>a. if list_ex (list_ex (\<lambda>w. w \<noteq> 0)) (cells a)
                            then [example_square] else []),
      contourArea = (\<lambda>c. 1),
      arcLength = (\<lambda>c closed. 4),
      approxPolyDP = (\<lambda>c eps closed. c),
      resize = (\<lambda>m (w, h). if rows m = 0 \<or> cols m = 0
                              then Inl (ExternalError ''cv2.error'')
                              else Inr \<lparr>rows = h, cols = w, cells = replicate h (replicate w 1)\<rparr>)\<rparr>"

definition example_image :: image where
  "example_image = \<lparr>img_shape = [1, 1, 3], img_pixel = (\<lambda>r c ch. 0)\<rparr>"

definition example_box :: box where
  "example_box = \<lparr>box_cls = 0, box_conf = 1, box_xyxy = (0, 0, 1, 1)\<rparr>"

definition full_mask :: mask where
  "full_mask = \<lparr>rows = 1, cols = 1, cells = [[1]]\<rparr>"

definition zero_mask :: mask where
  "zero_mask = \<lparr>rows = 1, cols = 1, cells = [[0]]\<rparr>"

definition faint_mask :: mask where
  "faint_mask = \<lparr>rows = 1, cols = 1, cells = [[1 / 510]]\<rparr>"

definition example_result :: "mask list \<Rightarrow> yresult" where
  "example_result ms =
     \<lparr>boxes = Some (replicate (length ms) example_box), masks = Some ms,
      names = [0 \<mapsto> ''person'']\<rparr>"

text \<open>A result without masks, and a box whose class has no name in it.\<close>

definition boxes_result :: "box list \<Rightarrow> yresult" where
  "boxes_result bs = \<lparr>boxes = Some bs, masks = None, names = [0 \<mapsto> ''person'']\<rparr>"

definition unnamed_box :: box where
  "unnamed_box = \<lparr>box_cls = 5, box_conf = 1, box_xyxy = (0, 0, 1, 1)\<rparr>"

text \<open>
  A 2 by 2 image and a mask that covers it; the contour of such a mask is the square
  above, its four corner pixels.
\<close>

definition square_image :: image where
  "square_image = \<lparr>img_shape = [2, 2, 3], img_pixel = (\<lambda>r c ch. 0)\<rparr>"

definition square_mask :: mask where
  "square_mask = \<lparr>rows = 2, cols = 2, cells = [[1, 1], [1, 1]]\<rparr>"

text \<open>
  Two detections over that image, both with the full mask; the class id of the second
  box has no name.
\<close>

definition mixed_result :: yresult where
  "mixed_result =
     \<lparr>boxes = Some [example_box, unnamed_box], masks = Some [square_mask, square_mask],
      names = [0 \<mapsto> ''person'']\<rparr>"

text \<open>A model that returns the same results for every image and never raises.\<close>

definition yolo_returning :: "yresult list \<Rightarrow> yolo" where
  "yolo_returning results = Yolo (\<lambda>img kwargs. Inr results) (\<lambda>device. None)"

definition example_yolo :: "mask list \<Rightarrow> yolo" where
  "example_yolo ms = yolo_returning [example_result ms]"

definition example_config :: "pdict \<Rightarrow> config" where
  "example_config ps =
     \<lparr>cfg_model_id = Some ''yolo11n_seg'', cfg_display_name = Some ''YOLO11n-Seg'',
      cfg_params = Some ps\<rparr>"

text \<open>The plugin as \<open>__init__\<close> leaves it, with the given parameters of its own.\<close>

definition fresh_plugin :: "pdict \<Rightarrow> plugin" where
  "fresh_plugin ps =
     \<lparr>model_id = ''yolo11n_seg'', display_name = ''YOLO11n-Seg'', params = ps, model = None\<rparr>"

text \<open>The same plugin after a \<open>load\<close> that built the example model.\<close>

definition plugin_with :: "pdict \<Rightarrow> yolo \<Rightarrow> plugin" where
  "plugin_with ps y = (fresh_plugin ps)\<lparr>model := Some y\<rparr>"

definition loaded_plugin :: "pdict \<Rightarrow> mask list \<Rightarrow> plugin" where
  "loaded_plugin ps ms = plugin_with ps (example_yolo ms)"


section \<open>Unfolding the model\<close>

lemmas example_defs = example_cv2_def example_square_def example_image_def example_box_def
  full_mask_def zero_mask_def example_result_def yolo_returning_def example_yolo_def
  fresh_plugin_def plugin_with_def loaded_plugin_def

lemmas extractor_defs = mask_to_polygon_def mask_uint8_def map_array2_def astype_uint8_def
  py_int_def

lemmas assembler_defs = result_shapes_def mask_instance_def box_instance_def getitem_def
  resample_def rectangle_def polygon_def close_ring_def

lemmas predict_defs = predict_def conf_threshold_of_def iou_threshold_of_def
  show_boxes_of_def epsilon_factor_of_def model_kwargs_def shape_hw_def dict_get_def

text \<open>The body of the mask loop once its four fallible steps have succeeded.\<close>

lemma mask_instance_stages:
  assumes "getitem (boxes result) i = Inr b"
    and "names result (py_int (box_cls b)) = Some lbl"
    and "resample cv msk orig_h orig_w = Inr msk'"
    and "mask_to_polygon cv msk' epsilon_factor = Inr pts"
  shows "mask_instance cv result orig_h orig_w show_boxes epsilon_factor i msk =
           (if length pts < 3 then Inr []
            else Inr ((if truthy show_boxes
                       then [rectangle lbl (box_conf b) (box_xyxy b)] else [])
                      @ [polygon lbl (box_conf b) (close_ring pts)]))"
  using assms by (simp add: mask_instance_def Let_def)


section \<open>The prompt parser against its specification\<close>

lemma spec_split_Nil: "spec_split cls [] = [[]]"
  by (simp add: spec_split.simps [of cls "[]"])

lemma spec_split_Cons:
  "spec_split cls (c # cs) =
     (if c \<in> cls then [] # spec_split cls cs
      else (case spec_split cls cs of [] \<Rightarrow> [[c]] | p # ps \<Rightarrow> (c # p) # ps))"
proof (cases "c \<in> cls")
  case True
  then show ?thesis by (simp add: spec_split.simps [of cls "c # cs"])
next
  case False
  show ?thesis
  proof (cases "dropWhile (\<lambda>c. c \<notin> cls) cs")
    case Nil
    with False show ?thesis
      by (simp add: spec_split.simps [of cls "c # cs"] spec_split.simps [of cls cs]
               del: dropWhile_eq_Nil_conv)
  next
    case (Cons d ds)
    with False show ?thesis
      by (simp add: spec_split.simps [of cls "c # cs"] spec_split.simps [of cls cs])
  qed
qed

lemma re_split_eq_spec_split: "re_split cls s = spec_split cls s"
  by (induction s) (simp_all add: spec_split_Nil spec_split_Cons)

lemma re_split_pieces: "p \<in> set (re_split cls s) \<Longrightarrow> set p \<subseteq> set s"
proof (induction s arbitrary: p)
  case Nil
  then show ?case by simp
next
  case (Cons c cs)
  show ?case
  proof (cases "c \<in> cls")
    case True
    with Cons.prems have "p = [] \<or> p \<in> set (re_split cls cs)" by simp
    then show ?thesis using Cons.IH [of p] by auto
  next
    case False
    show ?thesis
    proof (cases "re_split cls cs")
      case Nil
      with False Cons.prems show ?thesis by simp
    next
      case (Cons q qs)
      have q: "set q \<subseteq> set cs" using Cons.IH [of q] Cons by simp
      from False Cons Cons.prems have "p = c # q \<or> p \<in> set qs" by simp
      then show ?thesis
      proof
        assume "p = c # q"
        with q show ?thesis by auto
      next
        assume "p \<in> set qs"
        then have "set p \<subseteq> set cs" using Cons.IH [of p] Cons by simp
        then show ?thesis by auto
      qed
    qed
  qed
qed

lemma strip_both_ends:
  "rev (dropWhile P (rev (dropWhile P s))) = dropWhile P (rev (dropWhile P (rev s)))"
proof -
  define R where "R ys = rev (dropWhile P (rev ys))" for ys :: "'a list"
  have nil: "R [] = []" by (simp add: R_def)
  have snoc: "R (x # xs) = (if R xs = [] then (if P x then [] else [x]) else x # R xs)"
    for x xs
    by (auto simp: R_def dropWhile_append dropWhile_eq_Nil_conv)
  have "R (dropWhile P s) = dropWhile P (R s)"
    by (induction s) (simp_all add: nil snoc)
  then show ?thesis by (simp add: R_def)
qed

lemma strip_eq_spec_trim: "strip s = spec_trim s"
  by (simp add: strip_def spec_trim_def strip_both_ends)

lemma strip_blank_iff: "strip s = [] \<longleftrightarrow> (\<forall>c \<in> set s. isspace c)"
proof
  assume "strip s = []"
  then have "dropWhile isspace (rev (dropWhile isspace (rev s))) = []"
    by (simp add: strip_def strip_both_ends)
  then have a: "\<forall>c \<in> set (dropWhile isspace (rev s)). isspace c"
    by (simp add: dropWhile_eq_Nil_conv)
  have "dropWhile isspace (rev s) = []"
  proof (cases "dropWhile isspace (rev s)")
    case Nil
    then show ?thesis .
  next
    case (Cons y ys)
    then have "\<not> isspace y" using hd_dropWhile [of isspace "rev s"] by simp
    with a Cons show ?thesis by simp
  qed
  then show "\<forall>c \<in> set s. isspace c" by (simp add: dropWhile_eq_Nil_conv)
next
  assume "\<forall>c \<in> set s. isspace c"
  then show "strip s = []" by (simp add: strip_def dropWhile_eq_Nil_conv [THEN iffD2])
qed

lemma map_filter_strip:
  "map strip (filter (\<lambda>p. strip p \<noteq> []) ps) = filter (\<lambda>p. p \<noteq> []) (map strip ps)"
  by (induction ps) simp_all

lemma fromkeys_foldl:
  "foldl (\<lambda>keys k. if k \<in> set keys then keys else keys @ [k]) acc xs
     = acc @ spec_dedup (filter (\<lambda>x. x \<notin> set acc) xs)"
proof (induction xs arbitrary: acc)
  case Nil
  show ?case by simp
next
  case (Cons x xs)
  show ?case
  proof (cases "x \<in> set acc")
    case True
    then show ?thesis using Cons.IH [of acc] by simp
  next
    case False
    have "removeAll x (filter (\<lambda>y. y \<notin> set acc) xs) = filter (\<lambda>y. y \<notin> set (acc @ [x])) xs"
      by (induction xs) auto
    then show ?thesis using False Cons.IH [of "acc @ [x]"] by simp
  qed
qed

lemma fromkeys_eq_spec_dedup: "fromkeys xs = spec_dedup xs"
  using fromkeys_foldl [of "[]" xs] by (simp add: fromkeys_def)

lemma blank_pieces:
  assumes "strip text = []"
  shows "filter (\<lambda>p. p \<noteq> []) (map strip (re_split cls text)) = []"
proof -
  have "strip p = []" if "p \<in> set (re_split cls text)" for p
  proof -
    have "set p \<subseteq> set text" using that by (rule re_split_pieces)
    moreover have "\<forall>c \<in> set text. isspace c" using assms by (simp add: strip_blank_iff)
    ultimately show ?thesis by (auto simp: strip_blank_iff)
  qed
  then show ?thesis by (simp add: filter_empty_conv)
qed

lemma spec_parse_code:
  "spec_parse text cls deduplicate =
     (let pieces = filter (\<lambda>p. p \<noteq> []) (map strip (re_split cls text))
      in if deduplicate then fromkeys pieces else pieces)"
proof -
  have "map spec_trim (spec_split cls text) = map strip (re_split cls text)"
    by (simp add: re_split_eq_spec_split strip_eq_spec_trim cong: map_cong)
  then show ?thesis by (simp add: spec_parse_def fromkeys_eq_spec_dedup Let_def)
qed

lemma spec_parse_blank: "strip text = [] \<Longrightarrow> spec_parse text cls deduplicate = []"
  using blank_pieces [of "text" cls] by (simp add: spec_parse_code fromkeys_def)

lemma parse_prompts_class:
  "parse_prompts text (Some separators) deduplicate =
     (if strip text = [] then Inr []
      else if concat separators = [] then Inl ReError
      else Inr (spec_parse text (set (concat separators)) deduplicate))"
  by (simp add: parse_prompts_def char_class_def spec_parse_code map_filter_strip Let_def)

lemmas parse_eval = parse_prompts_def default_separators_def char_class_def strip_def
  isspace_def fromkeys_def

text \<open>
  C7. \<open>parse_prompts\<close> splits the text on every separator character, trims each piece,
  drops the empty pieces and, when asked, removes later duplicates keeping the first
  occurrences in order: it returns what the specification's wording computes, for any
  separators holding at least one character and for the default ones. Input that is
  empty or only whitespace gives the empty list. The three examples of the
  specification evaluate as stated.
\<close>

theorem parse_prompts_refines_spec:
  "(concat separators \<noteq> [] \<longrightarrow>
      parse_prompts text (Some separators) deduplicate
        = Inr (spec_parse text (set (concat separators)) deduplicate))
   \<and> parse_prompts text None deduplicate
        = Inr (spec_parse text {CHR '','', CHR ''.''} deduplicate)
   \<and> ((\<forall>c \<in> set text. isspace c) \<longrightarrow>
        parse_prompts text separators_arg deduplicate = Inr [])
   \<and> parse_prompts ''a, b, a.'' None True = Inr [''a'', ''b'']
   \<and> parse_prompts ''a, b, a.'' None False = Inr [''a'', ''b'', ''a'']
   \<and> parse_prompts ''   '' None True = Inr []"
proof (intro conjI impI)
  assume "concat separators \<noteq> []"
  then show "parse_prompts text (Some separators) deduplicate
               = Inr (spec_parse text (set (concat separators)) deduplicate)"
    by (auto simp: parse_prompts_class spec_parse_blank)
next
  have "parse_prompts text None deduplicate
          = parse_prompts text (Some default_separators) deduplicate"
    by (simp add: parse_prompts_def)
  also have "\<dots> = Inr (spec_parse text (set (concat default_separators)) deduplicate)"
    by (simp add: parse_prompts_class spec_parse_blank default_separators_def)
  finally show "parse_prompts text None deduplicate
                  = Inr (spec_parse text {CHR '','', CHR ''.''} deduplicate)"
    by (simp add: default_separators_def)
next
  assume "\<forall>c \<in> set text. isspace c"
  then have "strip text = []" by (simp add: strip_blank_iff)
  then show "parse_prompts text separators_arg deduplicate = Inr []"
    by (simp add: parse_prompts_def)
next
  show "parse_prompts ''a, b, a.'' None True = Inr [''a'', ''b'']"
    by (simp add: parse_eval)
next
  show "parse_prompts ''a, b, a.'' None False = Inr [''a'', ''b'', ''a'']"
    by (simp add: parse_eval)
next
  show "parse_prompts ''   '' None True = Inr []"
    by (simp add: parse_eval)
qed

theorem parse_prompts_refines_spec_witness:
  "concat ['';''] \<noteq> []
   \<and> parse_prompts ''x ;y;x'' (Some ['';'']) True = Inr [''x'', ''y'']
   \<and> spec_parse ''x ;y;x'' (set (concat ['';''])) True = [''x'', ''y'']
   \<and> list_all isspace '' ''
   \<and> parse_prompts '' '' (Some []) False = Inr []"
proof -
  have a: "concat ['';''] \<noteq> []" by simp
  have b: "parse_prompts ''x ;y;x'' (Some ['';'']) True = Inr [''x'', ''y'']"
    by (simp add: parse_eval)
  have c: "\<forall>c \<in> set '' ''. isspace c" by (simp add: isspace_def)
  from a b parse_prompts_refines_spec [of "['';'']" "''x ;y;x''" True]
  have d: "spec_parse ''x ;y;x'' (set (concat ['';''])) True = [''x'', ''y'']"
    by simp
  from c parse_prompts_refines_spec [of "[]" "'' ''" False "Some []"]
  have e: "parse_prompts '' '' (Some []) False = Inr []"
    by blast
  from a b c d e show ?thesis by (simp add: list_all_iff)
qed


section \<open>Closing a ring\<close>

text \<open>
  C8. Closing a ring that is already closed (non-empty, first point equal to the last)
  leaves it unchanged, and closing twice is the same as closing once: the closing
  point is never appended a second time.
\<close>

theorem close_ring_idempotent:
  "(points_list \<noteq> [] \<and> hd points_list = last points_list \<longrightarrow>
      close_ring points_list = points_list)
   \<and> close_ring (close_ring points_list) = close_ring points_list"
  by (simp add: close_ring_def)

theorem close_ring_idempotent_witness:
  "[(0, 0), (0, 1), (1, 1), (0, 0)] \<noteq> ([] :: point list)
   \<and> hd [(0, 0), (0, 1), (1, 1), (0, 0)] = (last [(0, 0), (0, 1), (1, 1), (0, 0)] :: point)
   \<and> close_ring [(0, 0), (0, 1), (1, 1), (0, 0)]
       = ([(0, 0), (0, 1), (1, 1), (0, 0)] :: point list)"
  using close_ring_idempotent [of "[(0, 0), (0, 1), (1, 1), (0, 0)] :: point list"]
  by simp


section \<open>Binarization\<close>

lemma uint8_of_small_int:
  assumes "0 \<le> k" and "k < 256"
  shows "(word_of_int k = (0 :: 8 word)) \<longleftrightarrow> k = 0"
proof
  assume "word_of_int k = (0 :: 8 word)"
  then have "2 ^ LENGTH(8) dvd k" by (simp only: word_of_int_eq_0_iff)
  then have "(256 :: int) dvd k" by simp
  then obtain q where q: "k = 256 * q" by (auto elim: dvdE)
  with assms have "0 \<le> q" and "q < 1" by auto
  then have "q = 0" by simp
  with q show "k = 0" by simp
next
  assume "k = 0"
  then show "word_of_int k = (0 :: 8 word)" by simp
qed

lemma floor_scaled_score:
  fixes v :: real
  assumes "0 \<le> v" and "v \<le> 1"
  shows "0 \<le> \<lfloor>v * 255\<rfloor>" and "\<lfloor>v * 255\<rfloor> < 256"
    and "\<lfloor>v * 255\<rfloor> = 0 \<longleftrightarrow> v < 1 / 255"
proof -
  from assms have nn: "0 \<le> v * 255" by simp
  then show "0 \<le> \<lfloor>v * 255\<rfloor>" by simp
  from assms have "v * 255 < 256" by simp
  then show "\<lfloor>v * 255\<rfloor> < 256" by (simp add: floor_less_iff)
  have "\<lfloor>v * 255\<rfloor> = 0 \<longleftrightarrow> 0 \<le> v * 255 \<and> v * 255 < 1"
    by (simp add: floor_eq_iff)
  also have "\<dots> \<longleftrightarrow> v < 1 / 255" using nn by auto
  finally show "\<lfloor>v * 255\<rfloor> = 0 \<longleftrightarrow> v < 1 / 255" .
qed

lemma astype_uint8_zero_iff:
  fixes v :: real
  assumes "0 \<le> v" and "v \<le> 1"
  shows "astype_uint8 (v * 255) = 0 \<longleftrightarrow> v < 1 / 255"
proof -
  have "astype_uint8 (v * 255) = 0 \<longleftrightarrow> \<lfloor>v * 255\<rfloor> = 0"
    using assms floor_scaled_score(1,2) [OF assms] uint8_of_small_int [of "\<lfloor>v * 255\<rfloor>"]
    by (simp add: astype_uint8_def py_int_def)
  also have "\<dots> \<longleftrightarrow> v < 1 / 255" by (rule floor_scaled_score(3) [OF assms])
  finally show ?thesis .
qed

lemma mask_uint8_cell:
  "r < length (cells msk) \<Longrightarrow> c < length (cells msk ! r) \<Longrightarrow>
     cells (mask_uint8 msk) ! r ! c = astype_uint8 (cells msk ! r ! c * 255)"
  by (simp add: mask_uint8_def map_array2_def)

lemma mask_to_polygon_of_uint8:
  "mask_to_polygon cv msk epsilon_factor =
     (case findContours cv (mask_uint8 msk) of
        [] \<Rightarrow> Inr []
      | c0 # cs \<Rightarrow>
          (case gt_zero epsilon_factor of
             Inl e \<Rightarrow> Inl e
           | Inr positive \<Rightarrow>
               Inr (map (\<lambda>(x, y). (real_of_int x, real_of_int y))
                      (if positive
                       then approxPolyDP cv (max_by (contourArea cv) c0 cs)
                              (num_of epsilon_factor
                                 * arcLength cv (max_by (contourArea cv) c0 cs) True) True
                       else max_by (contourArea cv) c0 cs))))"
  by (simp add: mask_to_polygon_def Let_def split: list.splits sum.splits)

text \<open>
  C3, as the code has it. The extractor hands to \<open>findContours\<close> the 8-bit array
  \<open>mask_uint8\<close> of the mask and reads the mask nowhere else: the mask scaled by 255
  and cast, which drops the fraction. The array has the mask's shape, and its pixel
  for a score between 0 and 1 is non-zero, that is foreground, exactly when the score
  is at least 1/255. Positive scores below 1/255 become 0, which is background. Two
  masks with the same 8-bit array give the same polygon.
\<close>

theorem mask_uint8_threshold:
  "r < length (cells msk) \<Longrightarrow> c < length (cells msk ! r) \<Longrightarrow>
   0 \<le> cells msk ! r ! c \<Longrightarrow> cells msk ! r ! c \<le> 1 \<Longrightarrow>
     (cells (mask_uint8 msk) ! r ! c \<noteq> 0 \<longleftrightarrow> 1 / 255 \<le> cells msk ! r ! c)
   \<and> (cells (mask_uint8 msk) ! r ! c = 0 \<longleftrightarrow> cells msk ! r ! c < 1 / 255)
   \<and> (foreground (cells msk ! r ! c) \<longleftrightarrow> cells (mask_uint8 msk) ! r ! c \<noteq> 0)
   \<and> rows (mask_uint8 msk) = rows msk \<and> cols (mask_uint8 msk) = cols msk
   \<and> length (cells (mask_uint8 msk)) = length (cells msk)
   \<and> mask_to_polygon cv msk epsilon_factor =
       (case findContours cv (mask_uint8 msk) of
          [] \<Rightarrow> Inr []
        | c0 # cs \<Rightarrow>
            (case gt_zero epsilon_factor of
               Inl e \<Rightarrow> Inl e
             | Inr positive \<Rightarrow>
                 Inr (map (\<lambda>(x, y). (real_of_int x, real_of_int y))
                        (if positive
                         then approxPolyDP cv (max_by (contourArea cv) c0 cs)
                                (num_of epsilon_factor
                                   * arcLength cv (max_by (contourArea cv) c0 cs) True) True
                         else max_by (contourArea cv) c0 cs))))
   \<and> (mask_uint8 msk = mask_uint8 msk2 \<longrightarrow>
        mask_to_polygon cv msk epsilon_factor = mask_to_polygon cv msk2 epsilon_factor)"
proof -
  assume r: "r < length (cells msk)" and c: "c < length (cells msk ! r)"
    and lo: "0 \<le> cells msk ! r ! c" and hi: "cells msk ! r ! c \<le> 1"
  have cell: "cells (mask_uint8 msk) ! r ! c = astype_uint8 (cells msk ! r ! c * 255)"
    using r c by (rule mask_uint8_cell)
  have z: "cells (mask_uint8 msk) ! r ! c = 0 \<longleftrightarrow> cells msk ! r ! c < 1 / 255"
    using astype_uint8_zero_iff [OF lo hi] by (simp only: cell)
  have nz: "cells (mask_uint8 msk) ! r ! c \<noteq> 0 \<longleftrightarrow> 1 / 255 \<le> cells msk ! r ! c"
    using z by auto
  have fg: "foreground (cells msk ! r ! c) \<longleftrightarrow> cells (mask_uint8 msk) ! r ! c \<noteq> 0"
    by (simp only: foreground_def cell)
  have shp: "rows (mask_uint8 msk) = rows msk \<and> cols (mask_uint8 msk) = cols msk
             \<and> length (cells (mask_uint8 msk)) = length (cells msk)"
    by (simp add: mask_uint8_def map_array2_def)
  have same: "mask_uint8 msk = mask_uint8 msk2 \<longrightarrow>
                mask_to_polygon cv msk epsilon_factor = mask_to_polygon cv msk2 epsilon_factor"
    by (simp add: mask_to_polygon_of_uint8)
  from nz z fg shp same mask_to_polygon_of_uint8 [of cv msk epsilon_factor]
  show ?thesis by blast
qed

theorem mask_uint8_threshold_witness:
  "(0 :: nat) < length (cells full_mask) \<and> (0 :: nat) < length (cells full_mask ! 0)
   \<and> 0 \<le> cells full_mask ! 0 ! 0 \<and> cells full_mask ! 0 ! 0 \<le> 1
   \<and> cells (mask_uint8 full_mask) ! 0 ! 0 \<noteq> 0
   \<and> foreground (cells full_mask ! 0 ! 0)
   \<and> (0 :: nat) < length (cells faint_mask) \<and> (0 :: nat) < length (cells faint_mask ! 0)
   \<and> 0 \<le> cells faint_mask ! 0 ! 0 \<and> cells faint_mask ! 0 ! 0 \<le> 1
   \<and> cells faint_mask ! 0 ! 0 < 1 / 255
   \<and> cells (mask_uint8 faint_mask) ! 0 ! 0 = 0
   \<and> mask_uint8 faint_mask = mask_uint8 zero_mask
   \<and> mask_to_polygon example_cv2 faint_mask (PFloat 0.001)
       = mask_to_polygon example_cv2 zero_mask (PFloat 0.001)"
proof -
  have a: "(0 :: nat) < length (cells full_mask)" "(0 :: nat) < length (cells full_mask ! 0)"
    "0 \<le> cells full_mask ! 0 ! 0" "cells full_mask ! 0 ! 0 \<le> 1"
    by (simp_all add: full_mask_def)
  have b: "(0 :: nat) < length (cells faint_mask)" "(0 :: nat) < length (cells faint_mask ! 0)"
    "0 \<le> cells faint_mask ! 0 ! 0" "cells faint_mask ! 0 ! 0 \<le> 1"
    by (simp_all add: faint_mask_def)
  have v1: "1 / 255 \<le> cells full_mask ! 0 ! 0" by (simp add: full_mask_def)
  have v2: "cells faint_mask ! 0 ! 0 < 1 / 255" by (simp add: faint_mask_def)
  have eq: "mask_uint8 faint_mask = mask_uint8 zero_mask"
    by (simp add: extractor_defs faint_mask_def zero_mask_def)
  note t1 = mask_uint8_threshold [OF a, of example_cv2 "PFloat 0.001" zero_mask]
  note t2 = mask_uint8_threshold [OF b, of example_cv2 "PFloat 0.001" zero_mask]
  from t1 v1 have f1: "cells (mask_uint8 full_mask) ! 0 ! 0 \<noteq> 0" by blast
  from t1 f1 have f2: "foreground (cells full_mask ! 0 ! 0)" by blast
  from t2 v2 have g1: "cells (mask_uint8 faint_mask) ! 0 ! 0 = 0" by blast
  from t2 eq have g2: "mask_to_polygon example_cv2 faint_mask (PFloat 0.001)
                         = mask_to_polygon example_cv2 zero_mask (PFloat 0.001)"
    by blast
  from a b v2 eq f1 f2 g1 g2 show ?thesis by simp
qed

text \<open>
  C3 as stated fails: the score 1/510 is strictly positive and lies in
  (0, 1/255), yet it is background; the 8-bit image of a mask holding it is the one of
  the all-zero mask, so the extractor cannot tell them apart.
\<close>

theorem faint_score_is_background:
  "(0 :: real) < 1 / 510 \<and> (1 :: real) / 510 < 1 / 255 \<and> \<not> foreground (1 / 510)
   \<and> mask_uint8 faint_mask = mask_uint8 zero_mask"
  by (simp add: foreground_def extractor_defs faint_mask_def zero_mask_def)


section \<open>Degenerate and proper polygons\<close>

text \<open>
  C4. A mask without contours gives the empty polygon. A mask whose polygon has fewer
  than three points contributes no shape: the loop body returns no shape whenever it
  returns, it does return (the empty list) when the box and label lookups succeed, and
  the loop goes on with the shapes collected so far.
\<close>

theorem degenerate_polygon_no_shape:
  "(findContours cv (mask_uint8 msk') = [] \<longrightarrow>
      mask_to_polygon cv msk' epsilon_factor = Inr [])
   \<and> (resample cv msk orig_h orig_w = Inr msk'
        \<and> mask_to_polygon cv msk' epsilon_factor = Inr pts \<and> length pts < 3
        \<and> mask_instance cv result orig_h orig_w show_boxes epsilon_factor i msk = Inr shps
      \<longrightarrow> shps = [])
   \<and> (getitem (boxes result) i = Inr b \<and> names result (py_int (box_cls b)) = Some lbl
        \<and> resample cv msk orig_h orig_w = Inr msk'
        \<and> mask_to_polygon cv msk' epsilon_factor = Inr pts \<and> length pts < 3
      \<longrightarrow> mask_instance cv result orig_h orig_w show_boxes epsilon_factor i msk = Inr [])
   \<and> (body i x = Inr [] \<longrightarrow>
        for_enumerate body i (x # xs) acc = for_enumerate body (Suc i) xs acc)"
proof (intro conjI impI)
  assume "findContours cv (mask_uint8 msk') = []"
  then show "mask_to_polygon cv msk' epsilon_factor = Inr []"
    by (simp add: mask_to_polygon_def)
next
  assume "resample cv msk orig_h orig_w = Inr msk'
        \<and> mask_to_polygon cv msk' epsilon_factor = Inr pts \<and> length pts < 3
        \<and> mask_instance cv result orig_h orig_w show_boxes epsilon_factor i msk = Inr shps"
  then show "shps = []"
    by (auto simp: mask_instance_def Let_def split: sum.splits option.splits if_splits)
next
  assume "getitem (boxes result) i = Inr b \<and> names result (py_int (box_cls b)) = Some lbl
        \<and> resample cv msk orig_h orig_w = Inr msk'
        \<and> mask_to_polygon cv msk' epsilon_factor = Inr pts \<and> length pts < 3"
  then show "mask_instance cv result orig_h orig_w show_boxes epsilon_factor i msk = Inr []"
    by (simp add: mask_instance_stages)
next
  assume "body i x = Inr []"
  then show "for_enumerate body i (x # xs) acc = for_enumerate body (Suc i) xs acc"
    by simp
qed

theorem degenerate_polygon_no_shape_witness:
  "findContours example_cv2 (mask_uint8 zero_mask) = []
   \<and> mask_to_polygon example_cv2 zero_mask (PFloat 0.001) = Inr []
   \<and> getitem (boxes (example_result [zero_mask])) 0 = Inr example_box
   \<and> names (example_result [zero_mask]) (py_int (box_cls example_box)) = Some ''person''
   \<and> resample example_cv2 zero_mask 1 1 = Inr zero_mask
   \<and> length ([] :: point list) < 3
   \<and> mask_instance example_cv2 (example_result [zero_mask]) 1 1 (PBool True) (PFloat 0.001)
        0 zero_mask = Inr []
   \<and> for_enumerate
        (mask_instance example_cv2 (example_result [zero_mask]) 1 1 (PBool True) (PFloat 0.001))
        0 [zero_mask] [] = Inr []"
proof -
  have a: "findContours example_cv2 (mask_uint8 zero_mask) = []"
    by (simp add: extractor_defs example_defs)
  have b: "getitem (boxes (example_result [zero_mask])) 0 = Inr example_box"
    by (simp add: getitem_def example_defs)
  have c: "names (example_result [zero_mask]) (py_int (box_cls example_box)) = Some ''person''"
    by (simp add: py_int_def example_defs)
  have d: "resample example_cv2 zero_mask 1 1 = Inr zero_mask"
    by (simp add: resample_def example_defs)
  note th = degenerate_polygon_no_shape [of example_cv2 zero_mask "PFloat 0.001" zero_mask 1 1
      "[]" "example_result [zero_mask]" "PBool True" 0 "[]" example_box "''person''"
      "mask_instance example_cv2 (example_result [zero_mask]) 1 1 (PBool True) (PFloat 0.001)"
      zero_mask "[]" "[]"]
  from th a have e: "mask_to_polygon example_cv2 zero_mask (PFloat 0.001) = Inr []"
    by blast
  from th b c d e
  have f: "mask_instance example_cv2 (example_result [zero_mask]) 1 1 (PBool True)
             (PFloat 0.001) 0 zero_mask = Inr []"
    by simp
  from th f
  have g: "for_enumerate
             (mask_instance example_cv2 (example_result [zero_mask]) 1 1 (PBool True)
                (PFloat 0.001))
             0 [zero_mask] [] = Inr []"
    by simp
  from a b c d e f g show ?thesis by simp
qed

text \<open>
  C5. A mask whose polygon has at least three points contributes, when the box and
  label lookups and the resampling succeed, exactly the rectangle of its box followed
  by its closed polygon when \<open>show_boxes\<close> is true, and exactly its closed polygon
  when \<open>show_boxes\<close> is false.
\<close>

theorem proper_polygon_shapes:
  "getitem (boxes result) i = Inr b \<Longrightarrow>
   names result (py_int (box_cls b)) = Some lbl \<Longrightarrow>
   resample cv msk orig_h orig_w = Inr msk' \<Longrightarrow>
   mask_to_polygon cv msk' epsilon_factor = Inr pts \<Longrightarrow>
   3 \<le> length pts \<Longrightarrow>
     mask_instance cv result orig_h orig_w show_boxes epsilon_factor i msk
       = Inr (if truthy show_boxes
              then [rectangle lbl (box_conf b) (box_xyxy b),
                    polygon lbl (box_conf b) (close_ring pts)]
              else [polygon lbl (box_conf b) (close_ring pts)])
     \<and> shape_type (rectangle lbl (box_conf b) (box_xyxy b)) = ''rectangle''
     \<and> shape_type (polygon lbl (box_conf b) (close_ring pts)) = ''polygon''"
  by (simp add: mask_instance_stages rectangle_def polygon_def split: prod.splits)

theorem proper_polygon_shapes_witness:
  "getitem (boxes (example_result [full_mask])) 0 = Inr example_box
   \<and> names (example_result [full_mask]) (py_int (box_cls example_box)) = Some ''person''
   \<and> resample example_cv2 full_mask 1 1 = Inr full_mask
   \<and> mask_to_polygon example_cv2 full_mask (PFloat 0.001)
       = Inr [(0, 0), (0, 1), (1, 1), (1, 0)]
   \<and> 3 \<le> length ([(0, 0), (0, 1), (1, 1), (1, 0)] :: point list)
   \<and> mask_instance example_cv2 (example_result [full_mask]) 1 1 (PBool True) (PFloat 0.001)
        0 full_mask
       = Inr [rectangle ''person'' 1 (0, 0, 1, 1),
              polygon ''person'' 1 [(0, 0), (0, 1), (1, 1), (1, 0), (0, 0)]]
   \<and> mask_instance example_cv2 (example_result [full_mask]) 1 1 (PBool False) (PFloat 0.001)
        0 full_mask
       = Inr [polygon ''person'' 1 [(0, 0), (0, 1), (1, 1), (1, 0), (0, 0)]]"
proof -
  have a: "getitem (boxes (example_result [full_mask])) 0 = Inr example_box"
    by (simp add: getitem_def example_defs)
  have b: "names (example_result [full_mask]) (py_int (box_cls example_box)) = Some ''person''"
    by (simp add: py_int_def example_defs)
  have c: "resample example_cv2 full_mask 1 1 = Inr full_mask"
    by (simp add: resample_def example_defs)
  have d: "mask_to_polygon example_cv2 full_mask (PFloat 0.001)
             = Inr [(0, 0), (0, 1), (1, 1), (1, 0)]"
    by (simp add: extractor_defs example_defs)
  have e: "3 \<le> length [(0 :: real, 0 :: real), (0, 1), (1, 1), (1, 0)]" by simp
  have r: "close_ring [(0 :: real, 0 :: real), (0, 1), (1, 1), (1, 0)]
             = [(0, 0), (0, 1), (1, 1), (1, 0), (0, 0)]"
    by (simp add: close_ring_def)
  from proper_polygon_shapes [OF a b c d e, of "PBool True"]
    proper_polygon_shapes [OF a b c d e, of "PBool False"] a b c d r
  show ?thesis by (simp add: example_defs)
qed


section \<open>Simplification and the tolerance\<close>

text \<open>
  What the extractor itself contributes to the point count: without contours there is
  no point; a factor that is not positive keeps the traced contour; a positive factor
  hands the contour to \<open>approxPolyDP\<close> with the tolerance \<open>factor * perimeter\<close>.
  How the count then depends on the factor is decided by \<open>approxPolyDP\<close> alone.
\<close>

lemma mask_to_polygon_float:
  "mask_to_polygon cv msk (PFloat e) =
     (case findContours cv (mask_uint8 msk) of
        [] \<Rightarrow> Inr []
      | c # cs \<Rightarrow>
          Inr (map (\<lambda>(x, y). (real_of_int x, real_of_int y))
                 (if 0 < e
                  then approxPolyDP cv (max_by (contourArea cv) c cs)
                         (e * arcLength cv (max_by (contourArea cv) c cs) True) True
                  else max_by (contourArea cv) c cs)))"
  by (simp add: mask_to_polygon_def Let_def split: list.splits)

lemma point_count_given_opencv:
  assumes shorter: "\<And>c t. length (approxPolyDP cv c t True) \<le> length c"
    and antitone: "\<And>c t1 t2. t1 \<le> t2 \<Longrightarrow>
                     length (approxPolyDP cv c t2 True) \<le> length (approxPolyDP cv c t1 True)"
    and perimeter: "\<And>c. 0 \<le> arcLength cv c True"
    and le: "e1 \<le> e2"
    and p1: "mask_to_polygon cv msk (PFloat e1) = Inr pts1"
    and p2: "mask_to_polygon cv msk (PFloat e2) = Inr pts2"
  shows "length pts2 \<le> length pts1"
proof (cases "findContours cv (mask_uint8 msk)")
  case Nil
  with p1 p2 show ?thesis by (simp add: mask_to_polygon_float)
next
  case (Cons c cs)
  let ?c = "max_by (contourArea cv) c cs"
  show ?thesis
  proof (cases "0 < e1")
    case True
    with le have pos2: "0 < e2" by simp
    from le perimeter [of ?c] have "e1 * arcLength cv ?c True \<le> e2 * arcLength cv ?c True"
      by (rule mult_right_mono)
    then have "length (approxPolyDP cv ?c (e2 * arcLength cv ?c True) True)
                 \<le> length (approxPolyDP cv ?c (e1 * arcLength cv ?c True) True)"
      by (rule antitone)
    with Cons True pos2 p1 p2 show ?thesis by (auto simp: mask_to_polygon_float)
  next
    case False
    show ?thesis
    proof (cases "0 < e2")
      case True
      with Cons False p1 p2 shorter [of ?c "e2 * arcLength cv ?c True"] show ?thesis
        by (auto simp: mask_to_polygon_float)
    next
      case e2: False
      with Cons False p1 p2 show ?thesis by (auto simp: mask_to_polygon_float)
    qed
  qed
qed


section \<open>The \<open>predict\<close> call\<close>

text \<open>\<open>predict\<close> on a plugin that holds a model, for an image with two dimensions or more.\<close>

lemma predict_loaded:
  assumes "shape_hw (img_shape img) = Inr (orig_h, orig_w)" and "model self = Some m"
  shows "predict cv self img call_params =
           (case yolo_call m img
                   (model_kwargs (conf_threshold_of self call_params)
                      (iou_threshold_of self call_params)) of
              Inl e \<Rightarrow> Inl e
            | Inr results \<Rightarrow>
                (case for_enumerate
                        (\<lambda>i. result_shapes cv orig_h orig_w (show_boxes_of self)
                                (epsilon_factor_of self call_params))
                        0 results [] of
                   Inl e \<Rightarrow> Inl e
                 | Inr shps \<Rightarrow> Inr \<lparr>shapes = shps, description = []\<rparr>))"
  using assms by (simp add: predict_def Let_def split: sum.splits)

lemma predict_unloaded:
  assumes "shape_hw (img_shape img) = Inr (orig_h, orig_w)" and "model self = None"
  shows "predict cv self img call_params = Inl (AttributeError ''model'')"
  using assms by (simp add: predict_def Let_def)

lemma load_success:
  assumes "load YOLO self = (Inr (), self')"
  shows "\<exists>m. model self' = Some m \<and> params self' = params self"
  using assms
  by (auto simp: load_def Let_def split: sum.splits option.splits)

lemma model_unload: "model (unload self) = None"
  by (simp add: unload_def)

lemma model_init: "init cfg = Inr self \<Longrightarrow> model self = None"
  by (auto simp: init_def split: option.splits)

text \<open>A loop stops at the first body that raises, whatever was collected before.\<close>

lemma for_enumerate_fails:
  "k < length xs \<Longrightarrow> body (i + k) (xs ! k) = Inl e \<Longrightarrow>
     \<exists>e'. for_enumerate body i xs acc = Inl e'"
proof (induction xs arbitrary: i k acc)
  case Nil
  then show ?case by simp
next
  case (Cons x xs)
  show ?case
  proof (cases "body i x")
    case (Inl e0)
    then show ?thesis by simp
  next
    case (Inr new)
    show ?thesis
    proof (cases k)
      case 0
      with Cons.prems Inr show ?thesis by simp
    next
      case (Suc k')
      with Cons.prems have "k' < length xs" and "body (Suc i + k') (xs ! k') = Inl e"
        by simp_all
      then have "\<exists>e'. for_enumerate body (Suc i) xs (acc @ new) = Inl e'"
        by (rule Cons.IH)
      with Inr show ?thesis by simp
    qed
  qed
qed

lemma predict_fails_on_result:
  assumes "shape_hw (img_shape img) = Inr (orig_h, orig_w)" and "model self = Some m"
    and "yolo_call m img
           (model_kwargs (conf_threshold_of self call_params)
              (iou_threshold_of self call_params)) = Inr results"
    and "j < length results"
    and "result_shapes cv orig_h orig_w (show_boxes_of self)
           (epsilon_factor_of self call_params) (results ! j) = Inl e"
  shows "\<exists>e'. predict cv self img call_params = Inl e'"
proof -
  from assms(4,5)
  obtain e' where
    "for_enumerate
       (\<lambda>i. result_shapes cv orig_h orig_w (show_boxes_of self)
               (epsilon_factor_of self call_params))
       0 results [] = Inl e'"
    using for_enumerate_fails
      [of j results
          "\<lambda>i. result_shapes cv orig_h orig_w (show_boxes_of self)
                  (epsilon_factor_of self call_params)" 0 e "[]"]
    by auto
  with assms(1,2,3) show ?thesis by (simp add: predict_loaded)
qed

text \<open>
  The three layered parameters: the call's value, else the plugin's own, else the
  default. \<open>show_boxes\<close> has two layers only.
\<close>

lemma layered_parameters:
  "conf_threshold_of self call_params =
     (case call_params ''conf_threshold'' of
        Some v \<Rightarrow> v
      | None \<Rightarrow> (case params self ''conf_threshold'' of Some v \<Rightarrow> v | None \<Rightarrow> PFloat 0.25))"
  "iou_threshold_of self call_params =
     (case call_params ''iou_threshold'' of
        Some v \<Rightarrow> v
      | None \<Rightarrow> (case params self ''iou_threshold'' of Some v \<Rightarrow> v | None \<Rightarrow> PFloat 0.70))"
  "epsilon_factor_of self call_params =
     (case call_params ''epsilon_factor'' of
        Some v \<Rightarrow> v
      | None \<Rightarrow> (case params self ''epsilon_factor'' of Some v \<Rightarrow> v | None \<Rightarrow> PFloat 0.001))"
  "show_boxes_of self =
     (case params self ''show_boxes'' of Some v \<Rightarrow> v | None \<Rightarrow> PBool False)"
  by (simp_all add: conf_threshold_of_def iou_threshold_of_def epsilon_factor_of_def
        show_boxes_of_def dict_get_def split: option.splits)

text \<open>A \<open>show_boxes\<close> entry of the call's parameters changes nothing.\<close>

lemma call_time_show_boxes_ignored:
  "predict cv self img (call_params(''show_boxes'' \<mapsto> v)) = predict cv self img call_params"
proof -
  have c: "conf_threshold_of self (call_params(''show_boxes'' \<mapsto> v))
             = conf_threshold_of self call_params"
    by (simp add: conf_threshold_of_def dict_get_def)
  have i: "iou_threshold_of self (call_params(''show_boxes'' \<mapsto> v))
             = iou_threshold_of self call_params"
    by (simp add: iou_threshold_of_def dict_get_def)
  have e: "epsilon_factor_of self (call_params(''show_boxes'' \<mapsto> v))
             = epsilon_factor_of self call_params"
    by (simp add: epsilon_factor_of_def dict_get_def)
  show ?thesis unfolding predict_def c i e by (rule refl)
qed

lemma example_hw: "shape_hw (img_shape example_image) = Inr (1, 1)"
  by (simp add: shape_hw_def example_defs)

lemma example_predict:
  "predict example_cv2 (loaded_plugin Map.empty [full_mask]) example_image Map.empty
     = Inr \<lparr>shapes = [polygon ''person'' 1 [(0, 0), (0, 1), (1, 1), (1, 0), (0, 0)]],
            description = []\<rparr>"
  by (simp add: predict_defs assembler_defs extractor_defs example_defs)

text \<open>
  C10. Whenever \<open>predict\<close> returns a result, its description is the empty string.
\<close>

theorem predict_description_empty:
  "predict cv self img call_params = Inr r \<Longrightarrow> description r = []"
  by (auto simp: predict_def Let_def split: sum.splits option.splits prod.splits)

theorem predict_description_empty_witness:
  "predict example_cv2 (loaded_plugin Map.empty [full_mask]) example_image Map.empty
     = Inr \<lparr>shapes = [polygon ''person'' 1 [(0, 0), (0, 1), (1, 1), (1, 0), (0, 0)]],
            description = []\<rparr>
   \<and> description
        \<lparr>shapes = [polygon ''person'' 1 [(0, 0), (0, 1), (1, 1), (1, 0), (0, 0)]],
         description = []\<rparr> = []"
  using predict_description_empty [OF example_predict] example_predict by simp

text \<open>
  C1, as the code has it. The plugin keeps no state but the attribute \<open>model\<close>. For an
  image with at least two dimensions, \<open>predict\<close> on a plugin without that attribute
  (as \<open>__init__\<close> leaves it, or after \<open>unload\<close>) raises \<open>AttributeError\<close>. After a
  \<open>load\<close> that returned normally the attribute is there and the plugin's parameters
  are unchanged: \<open>predict\<close> calls the wrapped model and returns the assembled shapes,
  unless that call or the assembling raises.
\<close>

theorem predict_needs_model_attribute:
  "shape_hw (img_shape img) = Inr (orig_h, orig_w) \<Longrightarrow>
     (model self = None \<longrightarrow> predict cv self img call_params = Inl (AttributeError ''model''))
   \<and> (init cfg = Inr self \<longrightarrow>
        predict cv self img call_params = Inl (AttributeError ''model''))
   \<and> predict cv (unload self) img call_params = Inl (AttributeError ''model'')
   \<and> (load YOLO self = (Inr (), self') \<longrightarrow>
        (\<exists>m. model self' = Some m \<and> params self' = params self
           \<and> predict cv self' img call_params =
               (case yolo_call m img
                       (model_kwargs (conf_threshold_of self' call_params)
                          (iou_threshold_of self' call_params)) of
                  Inl e \<Rightarrow> Inl e
                | Inr results \<Rightarrow>
                    (case for_enumerate
                            (\<lambda>i. result_shapes cv orig_h orig_w (show_boxes_of self')
                                    (epsilon_factor_of self' call_params))
                            0 results [] of
                       Inl e \<Rightarrow> Inl e
                     | Inr shps \<Rightarrow> Inr \<lparr>shapes = shps, description = []\<rparr>))))"
proof -
  assume hw: "shape_hw (img_shape img) = Inr (orig_h, orig_w)"
  have a: "model self = None \<longrightarrow>
             predict cv self img call_params = Inl (AttributeError ''model'')"
    using hw by (simp add: predict_unloaded)
  have b: "init cfg = Inr self \<longrightarrow>
             predict cv self img call_params = Inl (AttributeError ''model'')"
    using hw model_init [of cfg self] by (simp add: predict_unloaded)
  have c: "predict cv (unload self) img call_params = Inl (AttributeError ''model'')"
    using hw model_unload [of self] by (simp add: predict_unloaded)
  have d: "load YOLO self = (Inr (), self') \<longrightarrow>
        (\<exists>m. model self' = Some m \<and> params self' = params self
           \<and> predict cv self' img call_params =
               (case yolo_call m img
                       (model_kwargs (conf_threshold_of self' call_params)
                          (iou_threshold_of self' call_params)) of
                  Inl e \<Rightarrow> Inl e
                | Inr results \<Rightarrow>
                    (case for_enumerate
                            (\<lambda>i. result_shapes cv orig_h orig_w (show_boxes_of self')
                                    (epsilon_factor_of self' call_params))
                            0 results [] of
                       Inl e \<Rightarrow> Inl e
                     | Inr shps \<Rightarrow> Inr \<lparr>shapes = shps, description = []\<rparr>)))"
  proof
    assume "load YOLO self = (Inr (), self')"
    then obtain m where m: "model self' = Some m" "params self' = params self"
      using load_success by blast
    from predict_loaded [OF hw m(1)] m show "\<exists>m. model self' = Some m
           \<and> params self' = params self
           \<and> predict cv self' img call_params =
               (case yolo_call m img
                       (model_kwargs (conf_threshold_of self' call_params)
                          (iou_threshold_of self' call_params)) of
                  Inl e \<Rightarrow> Inl e
                | Inr results \<Rightarrow>
                    (case for_enumerate
                            (\<lambda>i. result_shapes cv orig_h orig_w (show_boxes_of self')
                                    (epsilon_factor_of self' call_params))
                            0 results [] of
                       Inl e \<Rightarrow> Inl e
                     | Inr shps \<Rightarrow> Inr \<lparr>shapes = shps, description = []\<rparr>))"
      by blast
  qed
  from a b c d show ?thesis by blast
qed

theorem predict_needs_model_attribute_witness:
  "shape_hw (img_shape example_image) = Inr (1, 1)
   \<and> model (fresh_plugin Map.empty) = None
   \<and> init (example_config Map.empty) = Inr (fresh_plugin Map.empty)
   \<and> predict example_cv2 (fresh_plugin Map.empty) example_image Map.empty
       = Inl (AttributeError ''model'')
   \<and> load (\<lambda>path. Inr (example_yolo [full_mask])) (fresh_plugin Map.empty)
       = (Inr (), loaded_plugin Map.empty [full_mask])
   \<and> predict example_cv2 (loaded_plugin Map.empty [full_mask]) example_image Map.empty
       = Inr \<lparr>shapes = [polygon ''person'' 1 [(0, 0), (0, 1), (1, 1), (1, 0), (0, 0)]],
              description = []\<rparr>
   \<and> predict example_cv2 (unload (loaded_plugin Map.empty [full_mask])) example_image
        Map.empty = Inl (AttributeError ''model'')"
proof -
  have a: "model (fresh_plugin Map.empty) = None" by (simp add: fresh_plugin_def)
  have b: "init (example_config Map.empty) = Inr (fresh_plugin Map.empty)"
    by (simp add: init_def example_config_def fresh_plugin_def)
  have c: "load (\<lambda>path. Inr (example_yolo [full_mask])) (fresh_plugin Map.empty)
             = (Inr (), loaded_plugin Map.empty [full_mask])"
    by (simp add: load_def dict_get_def example_defs)
  note th1 = predict_needs_model_attribute [OF example_hw, of "fresh_plugin Map.empty"
      example_cv2 Map.empty "example_config Map.empty" "\<lambda>path. Inr (example_yolo [full_mask])"
      "loaded_plugin Map.empty [full_mask]"]
  note th2 = predict_needs_model_attribute [OF example_hw, of "loaded_plugin Map.empty [full_mask]"
      example_cv2 Map.empty]
  from th1 a have d: "predict example_cv2 (fresh_plugin Map.empty) example_image Map.empty
                        = Inl (AttributeError ''model'')"
    by blast
  from th2 have e: "predict example_cv2 (unload (loaded_plugin Map.empty [full_mask]))
                      example_image Map.empty = Inl (AttributeError ''model'')"
    by blast
  from example_hw a b c d e example_predict show ?thesis by simp
qed

text \<open>
  C1 as stated fails: the plugin that \<open>__init__\<close> builds, and the plugin after
  \<open>unload\<close>, raise \<open>AttributeError\<close> and not \<open>NotLoadedError\<close>.
\<close>

theorem unloaded_predict_is_attribute_error:
  "init (example_config Map.empty) = Inr (fresh_plugin Map.empty)
   \<and> predict example_cv2 (fresh_plugin Map.empty) example_image Map.empty
       = Inl (AttributeError ''model'')
   \<and> predict example_cv2 (fresh_plugin Map.empty) example_image Map.empty
       \<noteq> Inl NotLoadedError
   \<and> predict example_cv2 (unload (loaded_plugin Map.empty [full_mask])) example_image
        Map.empty \<noteq> Inl NotLoadedError"
proof -
  have a: "init (example_config Map.empty) = Inr (fresh_plugin Map.empty)"
    by (simp add: init_def example_config_def fresh_plugin_def)
  have b: "predict example_cv2 (fresh_plugin Map.empty) example_image Map.empty
             = Inl (AttributeError ''model'')"
    by (rule predict_unloaded [OF example_hw]) (simp add: fresh_plugin_def)
  have c: "predict example_cv2 (unload (loaded_plugin Map.empty [full_mask])) example_image
             Map.empty = Inl (AttributeError ''model'')"
    by (rule predict_unloaded [OF example_hw]) (rule model_unload)
  from a b c show ?thesis by simp
qed

text \<open>
  C2, at the failing input. With no \<open>show_boxes\<close> of the plugin's own, a call that
  passes \<open>show_boxes = True\<close> gets the polygon alone, as a call that passes nothing;
  the rectangle appears only when the plugin's own parameters hold \<open>show_boxes\<close>.
\<close>

theorem call_time_show_boxes_has_no_effect:
  "predict example_cv2 (loaded_plugin Map.empty [full_mask]) example_image
       [''show_boxes'' \<mapsto> PBool True]
     = Inr \<lparr>shapes = [polygon ''person'' 1 [(0, 0), (0, 1), (1, 1), (1, 0), (0, 0)]],
            description = []\<rparr>
   \<and> predict example_cv2 (loaded_plugin [''show_boxes'' \<mapsto> PBool True] [full_mask])
       example_image Map.empty
     = Inr \<lparr>shapes = [rectangle ''person'' 1 (0, 0, 1, 1),
                      polygon ''person'' 1 [(0, 0), (0, 1), (1, 1), (1, 0), (0, 0)]],
            description = []\<rparr>"
  by (simp add: predict_defs assembler_defs extractor_defs example_defs)

lemma mask_instance_returns:
  assumes "mask_instance cv result orig_h orig_w show_boxes epsilon_factor i msk = Inr shps"
  shows "\<exists>b lbl msk' pts.
           getitem (boxes result) i = Inr b \<and> names result (py_int (box_cls b)) = Some lbl
           \<and> resample cv msk orig_h orig_w = Inr msk'
           \<and> mask_to_polygon cv msk' epsilon_factor = Inr pts
           \<and> (shps = [] \<longleftrightarrow> length pts < 3)"
proof -
  from assms obtain b where b: "getitem (boxes result) i = Inr b"
    by (cases "getitem (boxes result) i") (simp_all add: mask_instance_def)
  from assms b obtain lbl where l: "names result (py_int (box_cls b)) = Some lbl"
    by (cases "names result (py_int (box_cls b))") (simp_all add: mask_instance_def Let_def)
  from assms b l obtain msk' where m: "resample cv msk orig_h orig_w = Inr msk'"
    by (cases "resample cv msk orig_h orig_w") (simp_all add: mask_instance_def Let_def)
  from assms b l m obtain pts where p: "mask_to_polygon cv msk' epsilon_factor = Inr pts"
    by (cases "mask_to_polygon cv msk' epsilon_factor") (simp_all add: mask_instance_def Let_def)
  from assms have "shps = [] \<longleftrightarrow> length pts < 3"
    by (auto simp: mask_instance_stages [OF b l m p] split: if_splits)
  with b l m p show ?thesis by blast
qed

lemma box_instance_returns: "box_instance result b = Inr shps \<Longrightarrow> length shps = 1"
  by (auto simp: box_instance_def Let_def split: option.splits)

text \<open>
  C6, as the code has it. Nothing catches an exception inside the loops: when the body
  raises for one mask or one box of any result, the whole \<open>predict\<close> call raises and
  returns no shape. A mask whose body returns normally contributes no shape exactly
  when its polygon has fewer than three points, and a box of a result without masks
  whose body returns normally contributes one shape: nothing else is ever skipped.
\<close>

theorem instance_error_aborts_predict:
  "shape_hw (img_shape img) = Inr (orig_h, orig_w) \<Longrightarrow>
   model self = Some m \<Longrightarrow>
   yolo_call m img
     (model_kwargs (conf_threshold_of self call_params) (iou_threshold_of self call_params))
     = Inr results \<Longrightarrow>
   j < length results \<Longrightarrow>
     (masks (results ! j) = Some mask_data \<and> k < length mask_data
        \<and> mask_instance cv (results ! j) orig_h orig_w (show_boxes_of self)
             (epsilon_factor_of self call_params) k (mask_data ! k) = Inl e
      \<longrightarrow> (\<exists>e'. predict cv self img call_params = Inl e'))
   \<and> (masks (results ! j) = None \<and> boxes (results ! j) = Some bs \<and> k < length bs
        \<and> box_instance (results ! j) (bs ! k) = Inl e
      \<longrightarrow> (\<exists>e'. predict cv self img call_params = Inl e'))
   \<and> (mask_instance cv (results ! j) orig_h orig_w (show_boxes_of self)
         (epsilon_factor_of self call_params) i msk = Inr shps
      \<longrightarrow> (\<exists>b lbl msk' pts.
             getitem (boxes (results ! j)) i = Inr b
             \<and> names (results ! j) (py_int (box_cls b)) = Some lbl
             \<and> resample cv msk orig_h orig_w = Inr msk'
             \<and> mask_to_polygon cv msk' (epsilon_factor_of self call_params) = Inr pts
             \<and> (shps = [] \<longleftrightarrow> length pts < 3)))
   \<and> (box_instance (results ! j) bx = Inr bshps \<longrightarrow> length bshps = 1)"
proof -
  assume hw: "shape_hw (img_shape img) = Inr (orig_h, orig_w)"
    and m: "model self = Some m"
    and r: "yolo_call m img
              (model_kwargs (conf_threshold_of self call_params)
                 (iou_threshold_of self call_params)) = Inr results"
    and j: "j < length results"
  have a: "\<exists>e'. predict cv self img call_params = Inl e'"
    if "masks (results ! j) = Some mask_data" and "k < length mask_data"
      and "mask_instance cv (results ! j) orig_h orig_w (show_boxes_of self)
             (epsilon_factor_of self call_params) k (mask_data ! k) = Inl e"
  proof -
    from that(2,3)
    obtain e1 where
      "for_enumerate
         (mask_instance cv (results ! j) orig_h orig_w (show_boxes_of self)
            (epsilon_factor_of self call_params))
         0 mask_data [] = Inl e1"
      using for_enumerate_fails
        [of k mask_data
            "mask_instance cv (results ! j) orig_h orig_w (show_boxes_of self)
               (epsilon_factor_of self call_params)" 0 e "[]"]
      by auto
    with that(1)
    have "result_shapes cv orig_h orig_w (show_boxes_of self)
            (epsilon_factor_of self call_params) (results ! j) = Inl e1"
      by (simp add: result_shapes_def)
    with hw m r j show ?thesis by (rule predict_fails_on_result)
  qed
  have b: "\<exists>e'. predict cv self img call_params = Inl e'"
    if "masks (results ! j) = None" and "boxes (results ! j) = Some bs" and "k < length bs"
      and "box_instance (results ! j) (bs ! k) = Inl e"
  proof -
    from that(3,4)
    obtain e1 where
      "for_enumerate (\<lambda>i. box_instance (results ! j)) 0 bs [] = Inl e1"
      using for_enumerate_fails [of k bs "\<lambda>i. box_instance (results ! j)" 0 e "[]"]
      by auto
    with that(1,2)
    have "result_shapes cv orig_h orig_w (show_boxes_of self)
            (epsilon_factor_of self call_params) (results ! j) = Inl e1"
      by (simp add: result_shapes_def)
    with hw m r j show ?thesis by (rule predict_fails_on_result)
  qed
  have c: "mask_instance cv (results ! j) orig_h orig_w (show_boxes_of self)
             (epsilon_factor_of self call_params) i msk = Inr shps
           \<longrightarrow> (\<exists>b lbl msk' pts.
                  getitem (boxes (results ! j)) i = Inr b
                  \<and> names (results ! j) (py_int (box_cls b)) = Some lbl
                  \<and> resample cv msk orig_h orig_w = Inr msk'
                  \<and> mask_to_polygon cv msk' (epsilon_factor_of self call_params) = Inr pts
                  \<and> (shps = [] \<longleftrightarrow> length pts < 3))"
    using mask_instance_returns by blast
  have d: "box_instance (results ! j) bx = Inr bshps \<longrightarrow> length bshps = 1"
    using box_instance_returns by blast
  from a b c d show ?thesis by blast
qed

lemma square_hw: "shape_hw (img_shape square_image) = Inr (2, 2)"
  by (simp add: shape_hw_def square_image_def)

lemma square_polygon:
  "mask_to_polygon example_cv2 square_mask (PFloat 0.001)
     = Inr [(0, 0), (0, 1), (1, 1), (1, 0)]"
  by (simp add: extractor_defs example_cv2_def example_square_def square_mask_def)

lemma mixed_first:
  "mask_instance example_cv2 mixed_result 2 2 (PBool False) (PFloat 0.001) 0 square_mask
     = Inr [polygon ''person'' 1 [(0, 0), (0, 1), (1, 1), (1, 0), (0, 0)]]"
proof -
  have shp: "rows square_mask = 2" "cols square_mask = 2"
    by (simp_all add: square_mask_def)
  show ?thesis
    using square_polygon
    by (simp add: mask_instance_def getitem_def resample_def close_ring_def py_int_def
          polygon_def shp mixed_result_def example_box_def)
qed

lemma mixed_second:
  "mask_instance example_cv2 mixed_result 2 2 (PBool False) (PFloat 0.001) 1 square_mask
     = Inl KeyError"
  by (simp add: mask_instance_def getitem_def py_int_def mixed_result_def unnamed_box_def)

theorem instance_error_aborts_predict_witness:
  "shape_hw (img_shape square_image) = Inr (2, 2)
   \<and> model (plugin_with Map.empty (yolo_returning [mixed_result]))
       = Some (yolo_returning [mixed_result])
   \<and> yolo_call (yolo_returning [mixed_result]) square_image
        (model_kwargs
           (conf_threshold_of (plugin_with Map.empty (yolo_returning [mixed_result])) Map.empty)
           (iou_threshold_of (plugin_with Map.empty (yolo_returning [mixed_result])) Map.empty))
       = Inr [mixed_result]
   \<and> (0 :: nat) < length [mixed_result]
   \<and> masks ([mixed_result] ! 0) = Some [square_mask, square_mask]
   \<and> (1 :: nat) < length [square_mask, square_mask]
   \<and> mask_instance example_cv2 ([mixed_result] ! 0) 2 2
        (show_boxes_of (plugin_with Map.empty (yolo_returning [mixed_result])))
        (epsilon_factor_of (plugin_with Map.empty (yolo_returning [mixed_result])) Map.empty)
        1 ([square_mask, square_mask] ! 1) = Inl KeyError
   \<and> (\<exists>e'. predict example_cv2 (plugin_with Map.empty (yolo_returning [mixed_result]))
              square_image Map.empty = Inl e')
   \<and> mask_instance example_cv2 ([mixed_result] ! 0) 2 2
        (show_boxes_of (plugin_with Map.empty (yolo_returning [mixed_result])))
        (epsilon_factor_of (plugin_with Map.empty (yolo_returning [mixed_result])) Map.empty)
        0 square_mask
       = Inr [polygon ''person'' 1 [(0, 0), (0, 1), (1, 1), (1, 0), (0, 0)]]
   \<and> (\<exists>b lbl msk' pts.
         getitem (boxes ([mixed_result] ! 0)) 0 = Inr b
         \<and> names ([mixed_result] ! 0) (py_int (box_cls b)) = Some lbl
         \<and> resample example_cv2 square_mask 2 2 = Inr msk'
         \<and> mask_to_polygon example_cv2 msk'
              (epsilon_factor_of (plugin_with Map.empty (yolo_returning [mixed_result]))
                 Map.empty) = Inr pts
         \<and> \<not> length pts < 3)
   \<and> model (plugin_with Map.empty (yolo_returning [boxes_result [example_box, unnamed_box]]))
       = Some (yolo_returning [boxes_result [example_box, unnamed_box]])
   \<and> masks ([boxes_result [example_box, unnamed_box]] ! 0) = None
   \<and> boxes ([boxes_result [example_box, unnamed_box]] ! 0) = Some [example_box, unnamed_box]
   \<and> box_instance ([boxes_result [example_box, unnamed_box]] ! 0)
        ([example_box, unnamed_box] ! 1) = Inl KeyError
   \<and> (\<exists>e'. predict example_cv2
              (plugin_with Map.empty (yolo_returning [boxes_result [example_box, unnamed_box]]))
              square_image Map.empty = Inl e')
   \<and> box_instance ([boxes_result [example_box, unnamed_box]] ! 0) example_box
       = Inr [rectangle ''person'' 1 (0, 0, 1, 1)]
   \<and> length [rectangle ''person'' 1 (0, 0, 1, 1)] = 1"
proof -
  let ?p = "plugin_with Map.empty (yolo_returning [mixed_result])"
  let ?q = "plugin_with Map.empty (yolo_returning [boxes_result [example_box, unnamed_box]])"
  let ?bs = "[boxes_result [example_box, unnamed_box]]"
  let ?poly = "[polygon ''person'' 1 [(0, 0), (0, 1), (1, 1), (1, 0), (0, 0)]]"
  have sb: "show_boxes_of ?p = PBool False"
    by (simp add: show_boxes_of_def dict_get_def plugin_with_def fresh_plugin_def)
  have ef: "epsilon_factor_of ?p Map.empty = PFloat 0.001"
    by (simp add: epsilon_factor_of_def dict_get_def plugin_with_def fresh_plugin_def)
  have m: "model ?p = Some (yolo_returning [mixed_result])"
    by (simp add: plugin_with_def)
  have r: "yolo_call (yolo_returning [mixed_result]) square_image
             (model_kwargs (conf_threshold_of ?p Map.empty) (iou_threshold_of ?p Map.empty))
             = Inr [mixed_result]"
    by (simp add: yolo_returning_def)
  have j: "(0 :: nat) < length [mixed_result]" by simp
  have md: "masks ([mixed_result] ! 0) = Some [square_mask, square_mask]"
    by (simp add: mixed_result_def)
  have k: "(1 :: nat) < length [square_mask, square_mask]" by simp
  have f: "mask_instance example_cv2 ([mixed_result] ! 0) 2 2 (show_boxes_of ?p)
             (epsilon_factor_of ?p Map.empty) 1 ([square_mask, square_mask] ! 1)
             = Inl KeyError"
    using mixed_second by (simp add: sb ef)
  have g: "mask_instance example_cv2 ([mixed_result] ! 0) 2 2 (show_boxes_of ?p)
             (epsilon_factor_of ?p Map.empty) 0 square_mask = Inr ?poly"
    using mixed_first by (simp add: sb ef)
  note t1 = instance_error_aborts_predict [OF square_hw m r j,
      of "[square_mask, square_mask]" 1 example_cv2 KeyError "[]" 0 square_mask ?poly]
  from t1 md k f
  have c1: "\<exists>e'. predict example_cv2 ?p square_image Map.empty = Inl e'"
    by blast
  from t1 g
  have c3: "\<exists>b lbl msk' pts.
         getitem (boxes ([mixed_result] ! 0)) 0 = Inr b
         \<and> names ([mixed_result] ! 0) (py_int (box_cls b)) = Some lbl
         \<and> resample example_cv2 square_mask 2 2 = Inr msk'
         \<and> mask_to_polygon example_cv2 msk' (epsilon_factor_of ?p Map.empty) = Inr pts
         \<and> \<not> length pts < 3"
    by blast
  have m2: "model ?q = Some (yolo_returning [boxes_result [example_box, unnamed_box]])"
    by (simp add: plugin_with_def)
  have r2: "yolo_call (yolo_returning [boxes_result [example_box, unnamed_box]]) square_image
              (model_kwargs (conf_threshold_of ?q Map.empty) (iou_threshold_of ?q Map.empty))
              = Inr ?bs"
    by (simp add: yolo_returning_def)
  have j2: "(0 :: nat) < length ?bs" by simp
  have n2: "masks (?bs ! 0) = None" by (simp add: boxes_result_def)
  have b2: "boxes (?bs ! 0) = Some [example_box, unnamed_box]" by (simp add: boxes_result_def)
  have k2: "(1 :: nat) < length [example_box, unnamed_box]" by simp
  have f2: "box_instance (?bs ! 0) ([example_box, unnamed_box] ! 1) = Inl KeyError"
    by (simp add: box_instance_def py_int_def boxes_result_def unnamed_box_def)
  have g2: "box_instance (?bs ! 0) example_box = Inr [rectangle ''person'' 1 (0, 0, 1, 1)]"
    by (simp add: box_instance_def py_int_def boxes_result_def example_box_def)
  note t2 = instance_error_aborts_predict [OF square_hw m2 r2 j2,
      of "[]" 1 example_cv2 KeyError "[example_box, unnamed_box]" 0 square_mask "[]"
         example_box "[rectangle ''person'' 1 (0, 0, 1, 1)]"]
  from t2 n2 b2 k2 f2
  have c2: "\<exists>e'. predict example_cv2 ?q square_image Map.empty = Inl e'"
    by blast
  from t2 g2 have c4: "length [rectangle ''person'' 1 (0, 0, 1, 1)] = 1"
    by blast
  from square_hw m r md f c1 g c3 m2 n2 b2 f2 c2 g2 c4 show ?thesis by simp
qed

text \<open>
  C6 as stated fails. A 2 by 2 image has two detections with full masks; the class id
  of the second has no entry in \<open>names\<close>. The first mask alone gives its polygon, the
  second raises \<open>KeyError\<close>, and the call raises \<open>KeyError\<close>: the first polygon is
  not returned.
\<close>

theorem one_bad_instance_aborts_predict:
  "mask_instance example_cv2 mixed_result 2 2 (PBool False) (PFloat 0.001) 0 square_mask
     = Inr [polygon ''person'' 1 [(0, 0), (0, 1), (1, 1), (1, 0), (0, 0)]]
   \<and> mask_instance example_cv2 mixed_result 2 2 (PBool False) (PFloat 0.001) 1 square_mask
     = Inl KeyError
   \<and> predict example_cv2 (plugin_with Map.empty (yolo_returning [mixed_result]))
       square_image Map.empty
     = Inl KeyError"
proof -
  have sb: "show_boxes_of (plugin_with Map.empty (yolo_returning [mixed_result])) = PBool False"
    by (simp add: show_boxes_of_def dict_get_def plugin_with_def fresh_plugin_def)
  have ef: "epsilon_factor_of (plugin_with Map.empty (yolo_returning [mixed_result])) Map.empty
              = PFloat 0.001"
    by (simp add: epsilon_factor_of_def dict_get_def plugin_with_def fresh_plugin_def)
  have m: "model (plugin_with Map.empty (yolo_returning [mixed_result]))
             = Some (yolo_returning [mixed_result])"
    by (simp add: plugin_with_def)
  have rs: "result_shapes example_cv2 2 2 (PBool False) (PFloat 0.001) mixed_result
              = Inl KeyError"
    using mixed_first mixed_second
    by (simp add: result_shapes_def) (simp add: mixed_result_def)
  have yc: "yolo_call (yolo_returning [mixed_result]) square_image kw = Inr [mixed_result]"
    for kw
    by (simp add: yolo_returning_def)
  have "predict example_cv2 (plugin_with Map.empty (yolo_returning [mixed_result]))
          square_image Map.empty = Inl KeyError"
    using rs by (simp add: predict_loaded [OF square_hw m] yc sb ef)
  with mixed_first mixed_second show ?thesis by simp
qed


end
